theory Spec2Isabelle
  imports
    Main
    "HOL-Library.Char_ord"
    "HOL-Library.List_Lexorder"
    "HOL-Library.Product_Lexorder"
begin

section \<open>Values, errors and the environment\<close>

text \<open>
  The program is \<^verbatim>\<open>scripts/generate_dashboard.py\<close>. It reads JSON from the hosting API
  and works on the decoded values directly, so the model keeps them dynamically typed:
  \<open>JNull\<close> is Python's \<^verbatim>\<open>None\<close>, an object is the list of its items in insertion order
  (keys distinct, as in a Python dict). Numbers are integers: no field the program reads is
  fractional. A Python \<^verbatim>\<open>str\<close> is modelled by its UTF-8 bytes; the characters the program
  looks for (\<^verbatim>\<open>Z\<close>, the letters of \<^verbatim>\<open>rate limit\<close>, the five characters
  \<^verbatim>\<open>html.escape\<close> rewrites) are ASCII, and a byte below 128 occurs in UTF-8 only as that
  character, and bytewise order of UTF-8 text is code point order.
\<close>

datatype json =
    JNull
  | JBool bool
  | JInt int
  | JStr string
  | JArr "json list"
  | JObj "(string \<times> json) list"

text \<open>
  Every way the program can stop early is a value: the interpreter's exceptions that the
  subscripts, method calls and library calls of the source can raise, the exception of a
  failed network call, and \<^verbatim>\<open>sys.exit\<close>.
\<close>

datatype error =
    KeyError
  | IndexError
  | TypeError
  | AttributeError
  | ValueError
  | JSONDecodeError
  | RequestException
  | SystemExit int

text \<open>Truth value of a Python object, as \<^verbatim>\<open>if x\<close>, \<^verbatim>\<open>not x\<close> and \<^verbatim>\<open>x or y\<close> read it.\<close>

fun truthy :: "json \<Rightarrow> bool" where
  "truthy JNull = False"
| "truthy (JBool b) = b"
| "truthy (JInt i) = (i \<noteq> 0)"
| "truthy (JStr s) = (s \<noteq> [])"
| "truthy (JArr xs) = (xs \<noteq> [])"
| "truthy (JObj kvs) = (kvs \<noteq> [])"

definition py_or :: "json \<Rightarrow> json \<Rightarrow> json" where
  "py_or a b = (if truthy a then a else b)"

text \<open>\<^verbatim>\<open>x.get(k, d)\<close>: only a dict has the method.\<close>

fun py_get :: "json \<Rightarrow> string \<Rightarrow> json \<Rightarrow> error + json" where
  "py_get (JObj kvs) k d = Inr (case map_of kvs k of None \<Rightarrow> d | Some v \<Rightarrow> v)"
| "py_get _ k d = Inl AttributeError"

text \<open>\<^verbatim>\<open>x[k]\<close> with a string key: a missing key raises, and so does any other type.\<close>

fun py_item :: "json \<Rightarrow> string \<Rightarrow> error + json" where
  "py_item (JObj kvs) k = (case map_of kvs k of None \<Rightarrow> Inl KeyError | Some v \<Rightarrow> Inr v)"
| "py_item _ k = Inl TypeError"

text \<open>
  A code point starts at every byte that is not a UTF-8 continuation byte
  (\<^verbatim>\<open>10xxxxxx\<close>); \<open>take_chars n\<close> is the slice \<^verbatim>\<open>s[:n]\<close> of a string.
\<close>

definition is_continuation :: "char \<Rightarrow> bool" where
  "is_continuation c = (128 \<le> (of_char c :: nat) \<and> (of_char c :: nat) < 192)"

fun take_chars :: "nat \<Rightarrow> string \<Rightarrow> string" where
  "take_chars n [] = []"
| "take_chars n (c # cs) =
     (if is_continuation c then c # take_chars n cs
      else (case n of 0 \<Rightarrow> [] | Suc m \<Rightarrow> c # take_chars m cs))"

text \<open>\<^verbatim>\<open>x[0]\<close>: the keys of a decoded JSON object are strings, so an object has no key 0.\<close>

fun py_first :: "json \<Rightarrow> error + json" where
  "py_first (JArr []) = Inl IndexError"
| "py_first (JArr (x # xs)) = Inr x"
| "py_first (JStr []) = Inl IndexError"
| "py_first (JStr (c # cs)) = Inr (JStr (take_chars 1 (c # cs)))"
| "py_first (JObj kvs) = Inl KeyError"
| "py_first _ = Inl TypeError"

section \<open>Decimal rendering of integers\<close>

text \<open>\<^verbatim>\<open>str(n)\<close> and \<^verbatim>\<open>f"{n}"\<close> for a Python int.\<close>

definition digit_char :: "nat \<Rightarrow> char" where
  "digit_char d = char_of (48 + d)"

fun str_nat :: "nat \<Rightarrow> string" where
  "str_nat n = (if n < 10 then [digit_char n] else str_nat (n div 10) @ [digit_char (n mod 10)])"

declare str_nat.simps [simp del]

definition str_int :: "int \<Rightarrow> string" where
  "str_int i = (if i < 0 then CHR ''-'' # str_nat (nat (- i)) else str_nat (nat i))"

text \<open>Reading a digit string back, to state that \<open>str_nat\<close> is the decimal numeral.\<close>

definition digits_value :: "string \<Rightarrow> nat" where
  "digits_value ds = foldl (\<lambda>a c. 10 * a + (of_char c - 48)) 0 ds"

section \<open>format_duration\<close>

text \<open>
  \<^verbatim>\<open>
  def format_duration(seconds):
      if seconds < 60:
          return f"{seconds}s"
      m, s = divmod(seconds, 60)
      if m < 60:
          return f"{m}m {s}s"
      h, m = divmod(m, 60)
      return f"{h}h {m}m"
  \<close>
  Python's \<^verbatim>\<open>divmod\<close> on ints is floor division and its remainder, which is \<open>div\<close> and
  \<open>mod\<close> on \<open>int\<close>.
\<close>

definition format_duration :: "int \<Rightarrow> string" where
  "format_duration seconds =
     (if seconds < 60 then str_int seconds @ ''s''
      else
        (let m = seconds div 60; s = seconds mod 60 in
         if m < 60 then str_int m @ ''m '' @ str_int s @ ''s''
         else
           (let h = m div 60; m2 = m mod 60 in
            str_int h @ ''h '' @ str_int m2 @ ''m'')))"

section \<open>get_status_info\<close>

text \<open>The icons are fixed non-ASCII strings, written here as their UTF-8 bytes.\<close>

definition warning_icon :: string where
  "warning_icon = [CHR 0xE2, CHR 0x9A, CHR 0xA0, CHR 0xEF, CHR 0xB8, CHR 0x8F]"

definition cycle_icon :: string where
  "cycle_icon = [CHR 0xF0, CHR 0x9F, CHR 0x94, CHR 0x84]"

definition check_icon :: string where
  "check_icon = [CHR 0xE2, CHR 0x9C, CHR 0x85]"

definition cross_icon :: string where
  "cross_icon = [CHR 0xE2, CHR 0x9D, CHR 0x8C]"

definition stop_icon :: string where
  "stop_icon = [CHR 0xE2, CHR 0x8F, CHR 0xB9, CHR 0xEF, CHR 0xB8, CHR 0x8F]"

definition question_icon :: string where
  "question_icon = [CHR 0xE2, CHR 0x9D, CHR 0x93]"

text \<open>
  \<^verbatim>\<open>
  def get_status_info(run):
      if run is None:
          return "no_ci", "Sin CI", warning
      status = run.get("status", "")
      conclusion = run.get("conclusion", "")
      if status in ("in_progress", "queued", "waiting"):
          return "running", "Running", cycle
      if conclusion == "success":
          return "success", "Passing", check
      if conclusion == "failure":
          return "failure", "Failing", cross
      if conclusion == "cancelled":
          return "cancelled", "Cancelled", stop
      return "unknown", conclusion or status or "Unknown", question
  \<close>
  The result is the triple (status key, label, icon). The label of the last branch is
  whatever value the run carries, so labels are \<open>json\<close>.
\<close>

definition get_status_info :: "json \<Rightarrow> error + (string \<times> json \<times> string)" where
  "get_status_info run =
     (if run = JNull then Inr (''no_ci'', JStr ''Sin CI'', warning_icon)
      else
        (case py_get run ''status'' (JStr '''') of
           Inl e \<Rightarrow> Inl e
         | Inr status \<Rightarrow>
             (case py_get run ''conclusion'' (JStr '''') of
                Inl e \<Rightarrow> Inl e
              | Inr conclusion \<Rightarrow>
                  if status \<in> set [JStr ''in_progress'', JStr ''queued'', JStr ''waiting'']
                  then Inr (''running'', JStr ''Running'', cycle_icon)
                  else if conclusion = JStr ''success''
                  then Inr (''success'', JStr ''Passing'', check_icon)
                  else if conclusion = JStr ''failure''
                  then Inr (''failure'', JStr ''Failing'', cross_icon)
                  else if conclusion = JStr ''cancelled''
                  then Inr (''cancelled'', JStr ''Cancelled'', stop_icon)
                  else Inr (''unknown'', py_or conclusion (py_or status (JStr ''Unknown'')),
                            question_icon))))"

text \<open>The closed set of status keys.\<close>

definition status_keys :: "string set" where
  "status_keys = {''failure'', ''running'', ''cancelled'', ''no_ci'', ''unknown'', ''success''}"

section \<open>The hosting API\<close>

text \<open>
  \<^verbatim>\<open>requests.get\<close> is the program's only input. The environment gives, for each
  request, either the exception the call raises (a timeout, a connection error) or the
  response: its status code, its body as text, and the body decoded as JSON (\<open>None\<close> when
  \<^verbatim>\<open>resp.json()\<close> raises). The headers and the timeout of the request are constants of the
  program and are left out. The environment also holds the configured organization name
  and the library functions the program calls but does not define:
  \<^verbatim>\<open>datetime.fromisoformat\<close>, the rendering
  \<^verbatim>\<open>d.astimezone(AR_TZ).strftime("%Y-%m-%d %H:%M")\<close>, and \<^verbatim>\<open>repr\<close> for the
  values an f-string formats that are neither a string, a number, a boolean nor
  \<^verbatim>\<open>None\<close>. Console output (\<^verbatim>\<open>print\<close>) is not modelled.
\<close>

record request =
  req_url :: string
  req_params :: "(string \<times> json) list"

record response =
  status_code :: int
  resp_text :: string
  json_body :: "json option"

text \<open>
  A \<^verbatim>\<open>datetime\<close> is a point on the time line in microseconds, with the flag that tells
  an aware value (one that carries a UTC offset) from a naive one.
\<close>

record datetime =
  timestamp_us :: int
  aware :: bool

record env =
  org_name :: string
  requests_get :: "request \<Rightarrow> error + response"
  fromisoformat :: "string \<Rightarrow> datetime option"
  ar_strftime :: "datetime \<Rightarrow> string"
  py_repr :: "json \<Rightarrow> string"

text \<open>What an f-string writes for a value: \<^verbatim>\<open>str(x)\<close>.\<close>

definition py_str :: "env \<Rightarrow> json \<Rightarrow> string" where
  "py_str env v =
     (case v of
        JStr s \<Rightarrow> s
      | JNull \<Rightarrow> ''None''
      | JBool b \<Rightarrow> (if b then ''True'' else ''False'')
      | JInt i \<Rightarrow> str_int i
      | _ \<Rightarrow> py_repr env v)"

text \<open>
  \<^verbatim>\<open>s.lower()\<close> and \<^verbatim>\<open>needle in s\<close>. Only the ASCII letters are mapped: the test
  in \<^verbatim>\<open>api_get\<close> looks for the ASCII text \<^verbatim>\<open>rate limit\<close>, and no other character
  lowercases to text that completes an occurrence of it.
\<close>

definition lower_char :: "char \<Rightarrow> char" where
  "lower_char c =
     (if CHR ''A'' \<le> c \<and> c \<le> CHR ''Z'' then char_of ((of_char c :: nat) + 32) else c)"

definition lower :: "string \<Rightarrow> string" where
  "lower s = map lower_char s"

fun starts_with :: "string \<Rightarrow> string \<Rightarrow> bool" where
  "starts_with [] s = True"
| "starts_with (x # xs) [] = False"
| "starts_with (x # xs) (y # ys) = (x = y \<and> starts_with xs ys)"

fun contains :: "string \<Rightarrow> string \<Rightarrow> bool" where
  "contains needle [] = (needle = [])"
| "contains needle (c # cs) = (starts_with needle (c # cs) \<or> contains needle cs)"

text \<open>
  \<^verbatim>\<open>
  def api_get(url, params=None):
      resp = requests.get(url, headers=HEADERS, params=params or {}, timeout=30)
      if resp.status_code == 403 and "rate limit" in resp.text.lower():
          print(...)
          sys.exit(1)
      return resp
  \<close>
\<close>

definition rate_limited :: "response \<Rightarrow> bool" where
  "rate_limited resp = (status_code resp = 403 \<and> contains ''rate limit'' (lower (resp_text resp)))"

definition api_get :: "env \<Rightarrow> string \<Rightarrow> (string \<times> json) list \<Rightarrow> error + response" where
  "api_get env u ps =
     (case requests_get env \<lparr>req_url = u, req_params = ps\<rparr> of
        Inl e \<Rightarrow> Inl e
      | Inr resp \<Rightarrow> if rate_limited resp then Inl (SystemExit 1) else Inr resp)"

definition api_base :: string where
  "api_base = ''https://api.github.com''"

section \<open>get_all_repos\<close>







section \<open>get_latest_run\<close>

text \<open>
  \<^verbatim>\<open>
  def get_latest_run(repo_name):
      resp = api_get(f"{API}/repos/{ORG_NAME}/{repo_name}/actions/runs", {"per_page": 1})
      if resp.status_code != 200 or not resp.json().get("workflow_runs"):
          return None
      return resp.json()["workflow_runs"][0]
  \<close>
\<close>

definition and_then :: "error + 'a \<Rightarrow> ('a \<Rightarrow> error + 'b) \<Rightarrow> error + 'b" where
  "and_then m f = (case m of Inl e \<Rightarrow> Inl e | Inr v \<Rightarrow> f v)"

definition resp_json :: "response \<Rightarrow> error + json" where
  "resp_json resp = (case json_body resp of None \<Rightarrow> Inl JSONDecodeError | Some v \<Rightarrow> Inr v)"

definition runs_request :: "env \<Rightarrow> json \<Rightarrow> request" where
  "runs_request env repo_name =
     \<lparr>req_url = api_base @ ''/repos/'' @ org_name env @ ''/'' @ py_str env repo_name
                  @ ''/actions/runs'',
      req_params = [(''per_page'', JInt 1)]\<rparr>"

definition get_latest_run :: "env \<Rightarrow> json \<Rightarrow> error + json" where
  "get_latest_run env repo_name =
     and_then (api_get env (req_url (runs_request env repo_name))
                           (req_params (runs_request env repo_name))) (\<lambda>resp.
       if status_code resp \<noteq> 200 then Inr JNull
       else
         and_then (resp_json resp) (\<lambda>body.
         and_then (py_get body ''workflow_runs'' JNull) (\<lambda>runs.
           if \<not> truthy runs then Inr JNull
           else
             and_then (resp_json resp) (\<lambda>body2.
             and_then (py_item body2 ''workflow_runs'') py_first))))"

section \<open>build_repo_data\<close>

text \<open>\<^verbatim>\<open>s.replace(c, rep)\<close> for a one-character pattern; only a string has the method used here.\<close>

definition replace_char :: "char \<Rightarrow> string \<Rightarrow> string \<Rightarrow> string" where
  "replace_char c rep s = concat (map (\<lambda>x. if x = c then rep else [x]) s)"

definition parse_timestamp :: "env \<Rightarrow> json \<Rightarrow> error + datetime" where
  "parse_timestamp env v =
     (case v of
        JStr s \<Rightarrow>
          (case fromisoformat env (replace_char CHR ''Z'' ''+00:00'' s) of
             None \<Rightarrow> Inl ValueError
           | Some d \<Rightarrow> Inr d)
      | _ \<Rightarrow> Inl AttributeError)"

text \<open>
  \<^verbatim>\<open>int((updated - created).total_seconds())\<close>: the difference of a naive and an aware
  value raises; \<^verbatim>\<open>int\<close> rounds towards zero. \<^verbatim>\<open>total_seconds\<close> is a float in Python;
  it is the exact quotient here, which gives the same integer whenever the two values are
  whole seconds or less than \<open>2 ^ 33\<close> seconds apart.
\<close>

definition whole_seconds :: "int \<Rightarrow> int" where
  "whole_seconds us = (if us < 0 then - ((- us) div 1000000) else us div 1000000)"

definition elapsed_seconds :: "datetime \<Rightarrow> datetime \<Rightarrow> error + int" where
  "elapsed_seconds updated created =
     (if aware updated \<noteq> aware created then Inl TypeError
      else Inr (whole_seconds (timestamp_us updated - timestamp_us created)))"

text \<open>\<^verbatim>\<open>x[:80]\<close>\<close>

fun py_slice80 :: "json \<Rightarrow> error + json" where
  "py_slice80 (JStr s) = Inr (JStr (take_chars 80 s))"
| "py_slice80 (JArr xs) = Inr (JArr (take 80 xs))"
| "py_slice80 _ = Inl TypeError"

text \<open>
  A record of the report is the dict the loop body builds: six keys always, and the seven
  keys of \<^verbatim>\<open>entry.update({...})\<close> together or not at all.
\<close>

record run_fields =
  run_url :: json
  run_name :: json
  branch :: json
  commit_msg :: json
  commit_date :: string
  duration :: string
  workflow :: json

record entry =
  name :: json
  url :: json
  private_flag :: json
  status_key :: string
  status_label :: json
  status_icon :: string
  run_info :: "run_fields option"

text \<open>
  \<^verbatim>\<open>
          if run:
              created = datetime.fromisoformat(run["created_at"].replace("Z", "+00:00"))
              updated = datetime.fromisoformat(run["updated_at"].replace("Z", "+00:00"))
              duration_s = int((updated - created).total_seconds())
              entry.update({
                  "run_url": run["html_url"],
                  "run_name": run.get("name", run.get("display_title", "")),
                  "branch": run.get("head_branch", ""),
                  "commit_msg": (run.get("display_title")
                                 or run.get("head_commit", {}).get("message", ""))[:80],
                  "commit_date": created.astimezone(AR_TZ).strftime("%Y-%m-%d %H:%M"),
                  "duration": format_duration(duration_s),
                  "workflow": run.get("name", ""),
              })
  \<close>
\<close>

definition run_details :: "env \<Rightarrow> json \<Rightarrow> error + run_fields" where
  "run_details env run =
     and_then (py_item run ''created_at'') (\<lambda>c.
     and_then (parse_timestamp env c) (\<lambda>created.
     and_then (py_item run ''updated_at'') (\<lambda>u.
     and_then (parse_timestamp env u) (\<lambda>updated.
     and_then (elapsed_seconds updated created) (\<lambda>duration_s.
     and_then (py_item run ''html_url'') (\<lambda>run_url.
     and_then (py_get run ''display_title'' (JStr [])) (\<lambda>title_or_empty.
     and_then (py_get run ''name'' title_or_empty) (\<lambda>run_name.
     and_then (py_get run ''head_branch'' (JStr [])) (\<lambda>branch.
     and_then (py_get run ''display_title'' JNull) (\<lambda>title.
     and_then (if truthy title then Inr title
               else and_then (py_get run ''head_commit'' (JObj [])) (\<lambda>head_commit.
                    py_get head_commit ''message'' (JStr []))) (\<lambda>msg.
     and_then (py_slice80 msg) (\<lambda>commit_msg.
     and_then (py_get run ''name'' (JStr [])) (\<lambda>workflow.
       Inr \<lparr>run_url = run_url, run_name = run_name, branch = branch,
            commit_msg = commit_msg, commit_date = ar_strftime env created,
            duration = format_duration duration_s, workflow = workflow\<rparr>)))))))))))))"

text \<open>
  The body of the loop, for one repository:
  \<^verbatim>\<open>
          name = repo["name"]
          print(...)
          run = get_latest_run(name)
          status_key, status_label, status_icon = get_status_info(run)
          entry = {
              "name": name,
              "url": repo["html_url"],
              "private": repo.get("private", False),
              "status_key": status_key,
              "status_label": status_label,
              "status_icon": status_icon,
          }
          if run: ...
          results.append(entry)
  \<close>
\<close>

definition repo_entry :: "env \<Rightarrow> json \<Rightarrow> error + entry" where
  "repo_entry env repo =
     and_then (py_item repo ''name'') (\<lambda>name.
     and_then (get_latest_run env name) (\<lambda>run.
     and_then (get_status_info run) (\<lambda>(status_key, status_label, status_icon).
     and_then (py_item repo ''html_url'') (\<lambda>url.
     and_then (py_get repo ''private'' (JBool False)) (\<lambda>private.
     and_then (if truthy run then and_then (run_details env run) (\<lambda>d. Inr (Some d))
               else Inr None) (\<lambda>info.
       Inr \<lparr>name = name, url = url, private_flag = private, status_key = status_key,
            status_label = status_label, status_icon = status_icon,
            run_info = info\<rparr>))))))"

fun build_loop :: "env \<Rightarrow> json list \<Rightarrow> entry list \<Rightarrow> error + entry list" where
  "build_loop env [] results = Inr results"
| "build_loop env (repo # repos) results =
     (case repo_entry env repo of
        Inl e \<Rightarrow> Inl e
      | Inr entry \<Rightarrow> build_loop env repos (results @ [entry]))"

text \<open>
  \<^verbatim>\<open>
      order = {"failure": 0, "running": 1, "cancelled": 2, "no_ci": 3, "unknown": 4, "success": 5}
      results.sort(key=lambda r: (order.get(r["status_key"], 99), r["name"]))
      return results
  \<close>
  \<^verbatim>\<open>list.sort\<close> is stable, and so is \<open>sort_key\<close>; the sorted stable arrangement of a
  list is unique. Tuples compare lexicographically, strings by code point. Python compares
  two names only when their ranks tie, and raises \<^verbatim>\<open>TypeError\<close> when they are values of
  different or unordered types. The names the API returns are strings and the model sorts
  those; given any other name it reports the \<^verbatim>\<open>TypeError\<close>, also where Python's sort
  would not have compared that name.
\<close>

definition status_order :: "(string \<times> nat) list" where
  "status_order = [(''failure'', 0), (''running'', 1), (''cancelled'', 2), (''no_ci'', 3),
                   (''unknown'', 4), (''success'', 5)]"

definition rank :: "string \<Rightarrow> nat" where
  "rank k = (case map_of status_order k of None \<Rightarrow> 99 | Some n \<Rightarrow> n)"

fun is_str :: "json \<Rightarrow> bool" where
  "is_str (JStr s) = True"
| "is_str _ = False"

fun str_of :: "json \<Rightarrow> string" where
  "str_of (JStr s) = s"
| "str_of _ = []"

definition sort_entries :: "entry list \<Rightarrow> error + entry list" where
  "sort_entries results =
     (if \<forall>r \<in> set results. is_str (name r)
      then Inr (sort_key (\<lambda>r. (rank (status_key r), str_of (name r))) results)
      else Inl TypeError)"

definition build_repo_data :: "env \<Rightarrow> json list \<Rightarrow> error + entry list" where
  "build_repo_data env repos = and_then (build_loop env repos []) sort_entries"

section \<open>count_statuses\<close>

text \<open>
  \<^verbatim>\<open>
  def count_statuses(data):
      counts = {}
      for r in data:
          k = r["status_key"]
          counts[k] = counts.get(k, 0) + 1
      return counts
  \<close>
  The dict is the list of its items in insertion order.
\<close>

definition dict_get :: "(string \<times> int) list \<Rightarrow> string \<Rightarrow> int \<Rightarrow> int" where
  "dict_get d k dflt = (case map_of d k of None \<Rightarrow> dflt | Some v \<Rightarrow> v)"

fun dict_set :: "(string \<times> int) list \<Rightarrow> string \<Rightarrow> int \<Rightarrow> (string \<times> int) list" where
  "dict_set [] k v = [(k, v)]"
| "dict_set ((k2, v2) # d) k v = (if k2 = k then (k, v) # d else (k2, v2) # dict_set d k v)"

fun count_loop :: "entry list \<Rightarrow> (string \<times> int) list \<Rightarrow> (string \<times> int) list" where
  "count_loop [] counts = counts"
| "count_loop (r # data) counts =
     (let k = status_key r in count_loop data (dict_set counts k (dict_get counts k 0 + 1)))"

definition count_statuses :: "entry list \<Rightarrow> (string \<times> int) list" where
  "count_statuses data = count_loop data []"

text \<open>\<^verbatim>\<open>sum(counts.values())\<close>\<close>

definition sum_values :: "(string \<times> int) list \<Rightarrow> int" where
  "sum_values counts = sum_list (map snd counts)"

section \<open>generate_html\<close>

text \<open>
  \<^verbatim>\<open>html.escape(s, quote=True)\<close> of the standard library is five replacements in this
  order, the ampersand first.
\<close>

definition html_escape :: "string \<Rightarrow> string" where
  "html_escape s =
     replace_char (CHR 0x27) ''&#x27;''
       (replace_char (CHR 0x22) ''&quot;''
         (replace_char CHR ''>'' ''&gt;''
           (replace_char CHR ''<'' ''&lt;''
             (replace_char CHR ''&'' ''&amp;'' s))))"

text \<open>
  \<^verbatim>\<open>r.get(key)\<close> and \<^verbatim>\<open>r.get(key, default)\<close> for one of the seven keys that a record
  has only when its repository has a run.
\<close>

definition run_get :: "entry \<Rightarrow> (run_fields \<Rightarrow> 'a) \<Rightarrow> 'a \<Rightarrow> 'a" where
  "run_get r field dflt = (case run_info r of None \<Rightarrow> dflt | Some f \<Rightarrow> field f)"

definition nl :: string where
  "nl = [CHR 0x0A]"

definition em_dash :: string where
  "em_dash = [CHR 0xE2, CHR 0x80, CHR 0x94]"

definition clipboard_icon :: string where
  "clipboard_icon = [CHR 0xF0, CHR 0x9F, CHR 0x93, CHR 0x8B]"

definition lock_icon :: string where
  "lock_icon = [CHR 0xF0, CHR 0x9F, CHR 0x94, CHR 0x92]"

text \<open>
  \<^verbatim>\<open>
          copy_btn = ""
          if r["status_key"] in ("failure", "cancelled") and r.get("run_url"):
              copy_text = (
                  f'El pipeline "{r.get("workflow", "")}" fallo en el repo algojj/{r["name"]}, '
                  f'branch: {r.get("branch", "?")}, '
                  f'commit: "{r.get("commit_msg", "")}" ({r.get("commit_date", "")}). '
                  f'Run: {r.get("run_url", "")} (dash) '
                  f'Por favor revisa los logs del workflow y decime que paso.'
              )
              safe_text = html_mod.escape(copy_text, quote=True)
              copy_btn = f'<button class="copy-btn" data-copy="{safe_text}" title="...">(icon)</button>'
  \<close>
\<close>

definition copy_text :: "env \<Rightarrow> entry \<Rightarrow> string" where
  \<open>copy_text env r =
     ''El pipeline "'' @ py_str env (run_get r workflow (JStr [])) @
     ''" fallo en el repo algojj/'' @ py_str env (name r) @ '', '' @
     ''branch: '' @ py_str env (run_get r branch (JStr ''?'')) @ '', '' @
     ''commit: "'' @ py_str env (run_get r commit_msg (JStr [])) @
     ''" ('' @ run_get r commit_date [] @ ''). '' @
     ''Run: '' @ py_str env (run_get r run_url (JStr [])) @ '' '' @ em_dash @ '' '' @
     ''Por favor revisa los logs del workflow y decime que paso.''\<close>

definition wants_copy_btn :: "entry \<Rightarrow> bool" where
  "wants_copy_btn r =
     (status_key r \<in> set [''failure'', ''cancelled''] \<and> truthy (run_get r run_url JNull))"

definition copy_btn_open :: string where
  \<open>copy_btn_open = ''<button class="copy-btn" data-copy="''\<close>

definition copy_btn_close :: string where
  \<open>copy_btn_close = ''" title="Copy for Claude Code">'' @ clipboard_icon @ ''</button>''\<close>

definition copy_btn :: "env \<Rightarrow> entry \<Rightarrow> string" where
  "copy_btn env r =
     (if wants_copy_btn r
      then copy_btn_open @ html_escape (copy_text env r) @ copy_btn_close
      else [])"

text \<open>
  One pass of the loop over \<open>data\<close>: the text appended to \<open>rows\<close>.
  \<^verbatim>\<open>
          status_class = r["status_key"]
          run_link = ""; commit_info = ""; duration = ""; branch = ""
          if r.get("run_url"):
              run_link = f'<a href="{r["run_url"]}" target="_blank" class="run-link">View Run</a>'
              commit_info = f'<span class="commit-msg">{r.get("commit_msg", "")}</span><br>'
                            f'<span class="commit-date">{r.get("commit_date", "")}</span>'
              duration = r.get("duration", "")
              branch = r.get("branch", "")
          ...
          rows += f"""
          <tr class="status-{status_class}">
              <td class="status-cell"><span class="status-icon">{r["status_icon"]}</span> {r["status_label"]}</td>
              <td><a href="{r["url"]}" target="_blank" class="repo-link">{r["name"]}</a>{lock if r.get("private") else ""}</td>
              <td class="branch-cell">{branch}</td>
              <td class="commit-cell">{commit_info}</td>
              <td class="duration-cell">{duration}</td>
              <td class="action-cell">{run_link} {copy_btn}</td>
          </tr>"""
  \<close>
\<close>

definition render_row :: "env \<Rightarrow> entry \<Rightarrow> string" where
  \<open>render_row env r =
     (let status_class = status_key r;
          has_run = truthy (run_get r run_url JNull);
          run_link =
            (if has_run
             then ''<a href="'' @ py_str env (run_get r run_url JNull) @
                  ''" target="_blank" class="run-link">View Run</a>''
             else []);
          commit_info =
            (if has_run
             then ''<span class="commit-msg">'' @ py_str env (run_get r commit_msg (JStr [])) @
                  ''</span><br><span class="commit-date">'' @ run_get r commit_date [] @
                  ''</span>''
             else []);
          duration = (if has_run then run_get r duration [] else []);
          branch = (if has_run then py_str env (run_get r branch (JStr [])) else [])
      in
        nl @ ''        <tr class="status-'' @ status_class @ ''">'' @
        nl @ ''            <td class="status-cell"><span class="status-icon">'' @ status_icon r @
             ''</span> '' @ py_str env (status_label r) @ ''</td>'' @
        nl @ ''            <td><a href="'' @ py_str env (url r) @
             ''" target="_blank" class="repo-link">'' @ py_str env (name r) @ ''</a>'' @
             (if truthy (private_flag r) then ''  '' @ lock_icon else []) @ ''</td>'' @
        nl @ ''            <td class="branch-cell">'' @ branch @ ''</td>'' @
        nl @ ''            <td class="commit-cell">'' @ commit_info @ ''</td>'' @
        nl @ ''            <td class="duration-cell">'' @ duration @ ''</td>'' @
        nl @ ''            <td class="action-cell">'' @ run_link @ '' '' @ copy_btn env r @ ''</td>'' @
        nl @ ''        </tr>'')\<close>

fun render_rows :: "env \<Rightarrow> entry list \<Rightarrow> string \<Rightarrow> string" where
  "render_rows env [] rows = rows"
| "render_rows env (r # data) rows = render_rows env data (rows @ render_row env r)"

text \<open>
  \<^verbatim>\<open>
      total = len(data)
      failing = counts.get("failure", 0)
      passing = counts.get("success", 0)
      running = counts.get("running", 0)
      no_ci = counts.get("no_ci", 0)
      other = total - failing - passing - running - no_ci
  \<close>
\<close>

definition other_bucket :: "entry list \<Rightarrow> (string \<times> int) list \<Rightarrow> int" where
  "other_bucket data counts =
     int (length data) - dict_get counts ''failure'' 0 - dict_get counts ''success'' 0
       - dict_get counts ''running'' 0 - dict_get counts ''no_ci'' 0"

text \<open>
  The last line of the summary strip:
  \<^verbatim>\<open>{"<span class='stat stat-noci'>(stop) " + str(other) + " other</span>" if other > 0 else ""}\<close>
\<close>

definition other_entry :: "int \<Rightarrow> string" where
  \<open>other_entry other =
     (if other > 0
      then ''<span class='' @ [CHR 0x27] @ ''stat stat-noci'' @ [CHR 0x27] @ ''>'' @ stop_icon @
           '' '' @ str_int other @ '' other</span>''
      else [])\<close>

text \<open>
  The page is one f-string. Its text between the holes that does not depend on the input
  (the style sheet, the table head, the script) is a parameter: \<open>page_head\<close> runs up to
  the first use of the health colour, \<open>page_style\<close> from the last use to the health badge,
  \<open>page_table\<close> from the end of the header to the table body, \<open>page_tail\<close> from the end of
  the table body.
\<close>

record template =
  page_head :: string
  page_style :: string
  page_table :: string
  page_tail :: string

definition summary_strip :: "entry list \<Rightarrow> (string \<times> int) list \<Rightarrow> string" where
  \<open>summary_strip data counts =
     ''    <div class="stats">'' @
     nl @ ''        <span class="stat stat-total">'' @ str_int (int (length data)) @
          '' repos</span>'' @
     nl @ ''        <span class="stat stat-pass">'' @ check_icon @ '' '' @
          str_int (dict_get counts ''success'' 0) @ '' passing</span>'' @
     nl @ ''        <span class="stat stat-fail">'' @ cross_icon @ '' '' @
          str_int (dict_get counts ''failure'' 0) @ '' failing</span>'' @
     nl @ ''        <span class="stat stat-run">'' @ cycle_icon @ '' '' @
          str_int (dict_get counts ''running'' 0) @ '' running</span>'' @
     nl @ ''        <span class="stat stat-noci">'' @ warning_icon @ '' '' @
          str_int (dict_get counts ''no_ci'' 0) @ '' sin CI</span>'' @
     nl @ ''        '' @ other_entry (other_bucket data counts) @
     nl @ ''    </div>''\<close>

definition generate_html ::
  "template \<Rightarrow> env \<Rightarrow> entry list \<Rightarrow> (string \<times> int) list \<Rightarrow> string \<Rightarrow> string" where
  \<open>generate_html tpl env data counts timestamp =
     (let failing = dict_get counts ''failure'' 0;
          health = (if failing = 0 then ''ALL GREEN'' else str_int failing @ '' FAILING'');
          health_color = (if failing = 0 then ''#4caf50'' else ''#f44336'');
          rows = render_rows env data []
      in
        page_head tpl @ health_color @ ''22;'' @
        nl @ ''    color: '' @ health_color @ '';'' @
        nl @ ''    border: 1px solid '' @ health_color @ ''44;'' @
        page_style tpl @ health @ ''</div>'' @
        nl @ ''    </div>'' @
        nl @ summary_strip data counts @
        nl @ ''    <div class="timestamp">Last updated: '' @ timestamp @ '' (Argentina) '' @
             em_dash @ '' Refreshes every 15 min (Mon-Fri 8am-9pm ART)</div>'' @
        page_table tpl @ rows @ page_tail tpl)\<close>

section \<open>Example data\<close>

text \<open>
  A small organization, used to run the definitions on concrete input. Three repositories:
  \<open>alpha\<close>, whose latest run failed; \<open>beta\<close>, whose run request is answered with a
  server error; \<open>gamma\<close>, which has no runs. The listing has two pages of repositories
  and an empty third page.
\<close>

definition run_alpha :: json where
  "run_alpha = JObj
     [(''name'', JStr ''CI''),
      (''head_branch'', JStr ''main''),
      (''display_title'', JStr ''Fix <build>''),
      (''status'', JStr ''completed''),
      (''conclusion'', JStr ''failure''),
      (''html_url'', JStr ''https://github.com/algojj/alpha/actions/runs/7''),
      (''created_at'', JStr ''2024-01-01T00:00:00Z''),
      (''updated_at'', JStr ''2024-01-01T00:02:05Z'')]"

definition repo_alpha :: json where
  "repo_alpha = JObj
     [(''name'', JStr ''alpha''),
      (''html_url'', JStr ''https://github.com/algojj/alpha''),
      (''private'', JBool True)]"

definition repo_beta :: json where
  "repo_beta = JObj
     [(''name'', JStr ''beta''),
      (''html_url'', JStr ''https://github.com/algojj/beta''),
      (''private'', JBool False)]"

definition repo_gamma :: json where
  "repo_gamma = JObj
     [(''name'', JStr ''gamma''),
      (''html_url'', JStr ''https://github.com/algojj/gamma'')]"

definition ok_response :: "json \<Rightarrow> response" where
  "ok_response body = \<lparr>status_code = 200, resp_text = [], json_body = Some body\<rparr>"

definition server_error :: response where
  "server_error = \<lparr>status_code = 500, resp_text = ''Internal Server Error'', json_body = None\<rparr>"

definition rate_limit_response :: response where
  "rate_limit_response =
     \<lparr>status_code = 403, resp_text = ''API rate limit exceeded for installation.'',
      json_body = Some (JObj [(''message'', JStr ''API rate limit exceeded for installation.'')])\<rparr>"

definition demo_server :: "request \<Rightarrow> error + response" where
  "demo_server req =
     (if req_url req = ''https://api.github.com/orgs/algojj/repos'' then
        (if req_params req = [(''per_page'', JInt 100), (''page'', JInt 1), (''type'', JStr ''all'')]
         then Inr (ok_response (JArr [repo_alpha, repo_beta]))
         else if req_params req = [(''per_page'', JInt 100), (''page'', JInt 2), (''type'', JStr ''all'')]
         then Inr (ok_response (JArr [repo_gamma]))
         else Inr (ok_response (JArr [])))
      else if req_url req = ''https://api.github.com/repos/algojj/alpha/actions/runs''
      then Inr (ok_response (JObj [(''total_count'', JInt 1), (''workflow_runs'', JArr [run_alpha])]))
      else if req_url req = ''https://api.github.com/repos/algojj/gamma/actions/runs''
      then Inr (ok_response (JObj [(''total_count'', JInt 0), (''workflow_runs'', JArr [])]))
      else Inr server_error)"

text \<open>
  The library functions on the timestamps of the examples: midnight UTC of 2024-01-01 is
  1704067200 seconds after the epoch, and 21:00 of the day before at UTC-3.
\<close>

definition demo_fromisoformat :: "string \<Rightarrow> datetime option" where
  "demo_fromisoformat s =
     (if s = ''2024-01-01T00:00:00+00:00''
      then Some \<lparr>timestamp_us = 1704067200000000, aware = True\<rparr>
      else if s = ''2024-01-01T00:00:00.500000+00:00''
      then Some \<lparr>timestamp_us = 1704067200500000, aware = True\<rparr>
      else if s = ''2024-01-01T00:00:05+00:00''
      then Some \<lparr>timestamp_us = 1704067205000000, aware = True\<rparr>
      else if s = ''2024-01-01T00:02:05+00:00''
      then Some \<lparr>timestamp_us = 1704067325000000, aware = True\<rparr>
      else None)"

definition demo_strftime :: "datetime \<Rightarrow> string" where
  "demo_strftime d =
     (if timestamp_us d div 60000000 = 28401120 then ''2023-12-31 21:00''
      else if timestamp_us d div 60000000 = 28401122 then ''2023-12-31 21:02''
      else [])"

definition demo_env :: env where
  "demo_env =
     \<lparr>org_name = ''algojj'', requests_get = demo_server, fromisoformat = demo_fromisoformat,
      ar_strftime = demo_strftime, py_repr = (\<lambda>v. [])\<rparr>"

text \<open>The same organization when every request is answered with the rate-limit response.\<close>

definition limited_env :: env where
  "limited_env = demo_env\<lparr>requests_get := (\<lambda>req. Inr rate_limit_response)\<rparr>"




text \<open>A run that carries neither a status nor a conclusion.\<close>

definition run_blank :: json where
  "run_blank = JObj [(''status'', JStr []), (''conclusion'', JStr [])]"

text \<open>A run in progress that still carries the conclusion of an earlier attempt.\<close>

definition run_stale :: json where
  "run_stale = JObj [(''status'', JStr ''in_progress''), (''conclusion'', JStr ''failure'')]"

text \<open>The report for the three repositories.\<close>

definition demo_report :: "entry list" where
  "demo_report =
     [\<lparr>name = JStr ''alpha'', url = JStr ''https://github.com/algojj/alpha'',
       private_flag = JBool True, status_key = ''failure'', status_label = JStr ''Failing'',
       status_icon = cross_icon,
       run_info = Some
         \<lparr>run_url = JStr ''https://github.com/algojj/alpha/actions/runs/7'',
          run_name = JStr ''CI'', branch = JStr ''main'', commit_msg = JStr ''Fix <build>'',
          commit_date = ''2023-12-31 21:00'', duration = ''2m 5s'',
          workflow = JStr ''CI''\<rparr>\<rparr>,
      \<lparr>name = JStr ''beta'', url = JStr ''https://github.com/algojj/beta'',
       private_flag = JBool False, status_key = ''no_ci'', status_label = JStr ''Sin CI'',
       status_icon = warning_icon, run_info = None\<rparr>,
      \<lparr>name = JStr ''gamma'', url = JStr ''https://github.com/algojj/gamma'',
       private_flag = JBool False, status_key = ''no_ci'', status_label = JStr ''Sin CI'',
       status_icon = warning_icon, run_info = None\<rparr>]"

text \<open>
  A report with one record of every kind that the summary counts under \<open>other\<close>: the
  three records above, a cancelled run and a run with a conclusion the classifier does
  not know.
\<close>

definition mixed_report :: "entry list" where
  "mixed_report =
     demo_report @
     [\<lparr>name = JStr ''delta'', url = JStr ''https://github.com/algojj/delta'',
       private_flag = JBool False, status_key = ''cancelled'',
       status_label = JStr ''Cancelled'', status_icon = stop_icon,
       run_info = Some
         \<lparr>run_url = JStr ''https://github.com/algojj/delta/actions/runs/3'',
          run_name = JStr ''CI'', branch = JStr ''main'', commit_msg = JStr ''Bump'',
          commit_date = ''2023-12-31 21:00'', duration = ''45s'',
          workflow = JStr ''CI''\<rparr>\<rparr>,
      \<lparr>name = JStr ''epsilon'', url = JStr ''https://github.com/algojj/epsilon'',
       private_flag = JBool False, status_key = ''unknown'',
       status_label = JStr ''timed_out'', status_icon = question_icon,
       run_info = Some
         \<lparr>run_url = JStr ''https://github.com/algojj/epsilon/actions/runs/4'',
          run_name = JStr ''CI'', branch = JStr ''main'', commit_msg = JStr ''Bump'',
          commit_date = ''2023-12-31 21:00'', duration = ''2h 3m'',
          workflow = JStr ''CI''\<rparr>\<rparr>]"

section \<open>Properties of the duration format\<close>

lemma str_nat_digit: "n < 10 \<Longrightarrow> str_nat n = [digit_char n]"
  by (subst str_nat.simps) simp

lemma str_nat_step: "10 \<le> n \<Longrightarrow> str_nat n = str_nat (n div 10) @ [digit_char (n mod 10)]"
  by (subst str_nat.simps) simp

lemma digit_char_value: "d < 10 \<Longrightarrow> (of_char (digit_char d) :: nat) - 48 = d"
  by (simp add: digit_char_def)

lemma digits_value_snoc:
  "digits_value (ds @ [c]) = 10 * digits_value ds + (of_char c - 48)"
  by (simp add: digits_value_def)

lemma digits_value_str_nat: "digits_value (str_nat n) = n"
proof (induction n rule: str_nat.induct)
  case (1 n)
  show ?case
  proof (cases "n < 10")
    case True
    then show ?thesis
      by (simp add: str_nat_digit digits_value_def digit_char_value)
  next
    case False
    then have "digits_value (str_nat (n div 10)) = n div 10"
      using "1.IH" by simp
    with False show ?thesis
      by (simp add: str_nat_step digits_value_snoc digit_char_value)
  qed
qed

lemma digit_char_simps:
  "digit_char 0 = CHR ''0''" "digit_char 1 = CHR ''1''" "digit_char 2 = CHR ''2''"
  "digit_char 3 = CHR ''3''" "digit_char 4 = CHR ''4''" "digit_char 5 = CHR ''5''"
  "digit_char 6 = CHR ''6''" "digit_char 7 = CHR ''7''" "digit_char 8 = CHR ''8''"
  "digit_char 9 = CHR ''9''" "digit_char (Suc 0) = CHR ''1''"
  by code_simp+

lemma hours_of_seconds: "(s::int) div 60 div 60 = s div 3600"
  by (simp add: div_mult2_eq[symmetric])

lemma minutes_of_seconds: "(s::int) div 60 mod 60 = s mod 3600 div 60"
proof -
  have "s mod (60 * 60) = 60 * (s div 60 mod 60) + s mod 60"
    by (rule zmod_zmult2_eq) simp
  then show ?thesis by simp
qed

lemma under_an_hour: "(s::int) div 60 < 60 \<longleftrightarrow> s < 3600"
proof -
  have "s = 60 * (s div 60) + s mod 60" by simp
  moreover have "0 \<le> s mod 60" "s mod 60 < 60" by simp_all
  ultimately show ?thesis by linarith
qed

text \<open>
  C5. For every non-negative number of seconds \<open>s\<close>, \<open>format_duration s\<close> is the
  decimal numeral of \<open>s\<close> followed by \<open>s\<close> when \<open>s < 60\<close>; minutes \<open>s div 60\<close> and the
  remaining seconds as \<open>{m}m {s}s\<close> when \<open>60 \<le> s < 3600\<close>; whole hours and the remaining
  minutes as \<open>{h}h {m}m\<close> when \<open>s \<ge> 3600\<close>. In particular 45 gives \<open>45s\<close>, 125 gives
  \<open>2m 5s\<close> and 7384 gives \<open>2h 3m\<close>.
\<close>

theorem format_duration_nonneg:
  "(0 \<le> s \<longrightarrow>
      format_duration s =
        (if s < 60 then str_int s @ ''s''
         else if s < 3600 then str_int (s div 60) @ ''m '' @ str_int (s mod 60) @ ''s''
         else str_int (s div 3600) @ ''h '' @ str_int (s mod 3600 div 60) @ ''m''))
   \<and> format_duration 45 = ''45s''
   \<and> format_duration 125 = ''2m 5s''
   \<and> format_duration 7384 = ''2h 3m''"
proof -
  have "format_duration s =
        (if s < 60 then str_int s @ ''s''
         else if s < 3600 then str_int (s div 60) @ ''m '' @ str_int (s mod 60) @ ''s''
         else str_int (s div 3600) @ ''h '' @ str_int (s mod 3600 div 60) @ ''m'')"
    by (simp add: format_duration_def Let_def hours_of_seconds minutes_of_seconds under_an_hour)
  moreover have "format_duration 45 = ''45s''"
    by (simp add: format_duration_def str_int_def str_nat.simps digit_char_simps)
  moreover have "format_duration 125 = ''2m 5s''"
    by (simp add: format_duration_def str_int_def str_nat.simps digit_char_simps)
  moreover have "format_duration 7384 = ''2h 3m''"
    by (simp add: format_duration_def str_int_def str_nat.simps digit_char_simps)
  ultimately show ?thesis by blast
qed

theorem format_duration_nonneg_witness:
  "(0::int) \<le> 3725 \<and> format_duration 3725 = ''1h 2m''"
proof -
  have "(0::int) \<le> 3725" by simp
  moreover from this have "format_duration 3725 =
        (if (3725::int) < 60 then str_int 3725 @ ''s''
         else if (3725::int) < 3600 then str_int (3725 div 60) @ ''m '' @ str_int (3725 mod 60) @ ''s''
         else str_int (3725 div 3600) @ ''h '' @ str_int (3725 mod 3600 div 60) @ ''m'')"
    using format_duration_nonneg [of 3725] by blast
  ultimately show ?thesis
    by (simp add: str_int_def str_nat.simps digit_char_simps)
qed

section \<open>Properties of the classifier\<close>

text \<open>
  C3. A run whose status is \<open>in_progress\<close>, \<open>queued\<close> or \<open>waiting\<close> is classified
  \<open>running\<close>, with label \<open>Running\<close> and the cycle icon, whatever else the run holds, its
  conclusion included.
\<close>

theorem running_overrides_conclusion:
  "map_of kvs ''status'' = Some (JStr s) \<Longrightarrow>
   s \<in> {''in_progress'', ''queued'', ''waiting''} \<Longrightarrow>
   get_status_info (JObj kvs) = Inr (''running'', JStr ''Running'', cycle_icon)"
  by (auto simp add: get_status_info_def)

theorem running_overrides_conclusion_witness:
  "map_of [(''status'', JStr ''in_progress''), (''conclusion'', JStr ''failure'')] ''conclusion''
     = Some (JStr ''failure'')
   \<and> get_status_info run_stale = Inr (''running'', JStr ''Running'', cycle_icon)"
  using running_overrides_conclusion
          [of "[(''status'', JStr ''in_progress''), (''conclusion'', JStr ''failure'')]"
              "''in_progress''"]
  by (simp add: run_stale_def)

text \<open>
  C4, as the code has it. A run that is not classified as running and whose conclusion is
  none of \<open>success\<close>, \<open>failure\<close>, \<open>cancelled\<close> gets the key \<open>unknown\<close> and the question
  mark icon; its label is the conclusion when that is non-empty, otherwise the status when
  that is non-empty, and the text \<open>Unknown\<close> when both are empty.
\<close>

theorem unknown_label:
  "run \<noteq> JNull \<Longrightarrow>
   py_get run ''status'' (JStr []) = Inr status \<Longrightarrow>
   py_get run ''conclusion'' (JStr []) = Inr conclusion \<Longrightarrow>
   status \<notin> {JStr ''in_progress'', JStr ''queued'', JStr ''waiting''} \<Longrightarrow>
   conclusion \<notin> {JStr ''success'', JStr ''failure'', JStr ''cancelled''} \<Longrightarrow>
   get_status_info run =
     Inr (''unknown'',
          (if truthy conclusion then conclusion
           else if truthy status then status
           else JStr ''Unknown''),
          question_icon)"
  by (simp add: get_status_info_def py_or_def)

theorem unknown_label_witness:
  "get_status_info (JObj [(''status'', JStr ''completed''), (''conclusion'', JStr ''timed_out'')])
     = Inr (''unknown'', JStr ''timed_out'', question_icon)
   \<and> get_status_info (JObj [(''status'', JStr ''requested''), (''conclusion'', JNull)])
     = Inr (''unknown'', JStr ''requested'', question_icon)"
  using unknown_label
          [of "JObj [(''status'', JStr ''completed''), (''conclusion'', JStr ''timed_out'')]"
              "JStr ''completed''" "JStr ''timed_out''"]
        unknown_label
          [of "JObj [(''status'', JStr ''requested''), (''conclusion'', JNull)]"
              "JStr ''requested''" JNull]
  by simp

text \<open>
  C4 as stated fails on a run whose status and conclusion are both empty: the label is
  neither of them.
\<close>

theorem unknown_label_counterexample:
  "py_get run_blank ''status'' (JStr []) = Inr (JStr [])
   \<and> py_get run_blank ''conclusion'' (JStr []) = Inr (JStr [])
   \<and> get_status_info run_blank = Inr (''unknown'', JStr ''Unknown'', question_icon)
   \<and> get_status_info run_blank \<noteq> Inr (''unknown'', JStr [], question_icon)"
  by (simp add: run_blank_def get_status_info_def py_or_def)

section \<open>Negative durations\<close>

lemma and_then_simps [simp]:
  "and_then (Inr v) f = f v"
  "and_then (Inl e) f = Inl e"
  by (simp_all add: and_then_def)













section \<open>Properties of the run fetcher and the report builder\<close>

lemma api_get_request:
  "api_get env (req_url r) (req_params r) =
     (case requests_get env r of
        Inl e \<Rightarrow> Inl e
      | Inr resp \<Rightarrow> if rate_limited resp then Inl (SystemExit 1) else Inr resp)"
  by (cases r) (simp add: api_get_def)

lemma get_latest_run_not_ok:
  "requests_get env (runs_request env repo_name) = Inr resp \<Longrightarrow>
   \<not> rate_limited resp \<Longrightarrow> status_code resp \<noteq> 200 \<Longrightarrow>
   get_latest_run env repo_name = Inr JNull"
  by (simp add: get_latest_run_def api_get_request)

lemma get_latest_run_no_runs:
  "requests_get env (runs_request env repo_name) = Inr resp \<Longrightarrow>
   \<not> rate_limited resp \<Longrightarrow> json_body resp = Some (JObj body) \<Longrightarrow>
   \<not> truthy (case map_of body ''workflow_runs'' of None \<Rightarrow> JNull | Some v \<Rightarrow> v) \<Longrightarrow>
   get_latest_run env repo_name = Inr JNull"
  by (simp add: get_latest_run_def api_get_request resp_json_def)

lemma get_latest_run_rate_limited:
  "requests_get env (runs_request env repo_name) = Inr resp \<Longrightarrow> rate_limited resp \<Longrightarrow>
   get_latest_run env repo_name = Inl (SystemExit 1)"
  by (simp add: get_latest_run_def api_get_request)

lemma get_status_info_none:
  "get_status_info JNull = Inr (''no_ci'', JStr ''Sin CI'', warning_icon)"
  by (simp add: get_status_info_def)

lemma repo_entry_no_run:
  "map_of kvs ''name'' = Some repo_name \<Longrightarrow> map_of kvs ''html_url'' = Some u \<Longrightarrow>
   get_latest_run env repo_name = Inr JNull \<Longrightarrow>
   repo_entry env (JObj kvs) =
     Inr \<lparr>name = repo_name, url = u,
          private_flag = (case map_of kvs ''private'' of None \<Rightarrow> JBool False | Some v \<Rightarrow> v),
          status_key = ''no_ci'', status_label = JStr ''Sin CI'', status_icon = warning_icon,
          run_info = None\<rparr>"
  by (simp add: repo_entry_def get_status_info_none)








lemma build_repo_data_limited:
  "build_repo_data limited_env [repo_alpha, repo_beta, repo_gamma] = Inl (SystemExit 1)"
  by code_simp






text \<open>
  C8, as the code has it. When the run request of a repository is answered with a
  non-success status that is not the rate-limit response (status 403 with \<open>rate limit\<close> in
  its body), or with an object whose \<open>workflow_runs\<close> is empty or missing,
  \<open>get_latest_run\<close> returns \<open>None\<close>; \<open>None\<close> is classified \<open>no_ci\<close> with the label
  \<open>Sin CI\<close> and the warning icon; and the loop appends that record and goes on with the
  remaining repositories.
\<close>

theorem failed_fetch_is_no_ci:
  "requests_get env (runs_request env repo_name) = Inr resp
   \<and> \<not> rate_limited resp
   \<and> (status_code resp \<noteq> 200
      \<or> (\<exists>body. json_body resp = Some (JObj body)
            \<and> \<not> truthy (case map_of body ''workflow_runs'' of None \<Rightarrow> JNull | Some v \<Rightarrow> v)))
   \<longrightarrow>
     get_latest_run env repo_name = Inr JNull
     \<and> get_status_info JNull = Inr (''no_ci'', JStr ''Sin CI'', warning_icon)
     \<and> (map_of kvs ''name'' = Some repo_name \<and> map_of kvs ''html_url'' = Some u \<longrightarrow>
          build_loop env (JObj kvs # rest) acc =
            build_loop env rest
              (acc @ [\<lparr>name = repo_name, url = u,
                       private_flag =
                         (case map_of kvs ''private'' of None \<Rightarrow> JBool False | Some v \<Rightarrow> v),
                       status_key = ''no_ci'', status_label = JStr ''Sin CI'',
                       status_icon = warning_icon, run_info = None\<rparr>]))"
proof (intro impI)
  assume a: "requests_get env (runs_request env repo_name) = Inr resp
   \<and> \<not> rate_limited resp
   \<and> (status_code resp \<noteq> 200
      \<or> (\<exists>body. json_body resp = Some (JObj body)
            \<and> \<not> truthy (case map_of body ''workflow_runs'' of None \<Rightarrow> JNull | Some v \<Rightarrow> v)))"
  then have none: "get_latest_run env repo_name = Inr JNull"
    using get_latest_run_not_ok get_latest_run_no_runs by blast
  have "map_of kvs ''name'' = Some repo_name \<and> map_of kvs ''html_url'' = Some u \<longrightarrow>
          build_loop env (JObj kvs # rest) acc =
            build_loop env rest
              (acc @ [\<lparr>name = repo_name, url = u,
                       private_flag =
                         (case map_of kvs ''private'' of None \<Rightarrow> JBool False | Some v \<Rightarrow> v),
                       status_key = ''no_ci'', status_label = JStr ''Sin CI'',
                       status_icon = warning_icon, run_info = None\<rparr>])"
    using none by (simp add: repo_entry_no_run)
  with none get_status_info_none show
    "get_latest_run env repo_name = Inr JNull
     \<and> get_status_info JNull = Inr (''no_ci'', JStr ''Sin CI'', warning_icon)
     \<and> (map_of kvs ''name'' = Some repo_name \<and> map_of kvs ''html_url'' = Some u \<longrightarrow>
          build_loop env (JObj kvs # rest) acc =
            build_loop env rest
              (acc @ [\<lparr>name = repo_name, url = u,
                       private_flag =
                         (case map_of kvs ''private'' of None \<Rightarrow> JBool False | Some v \<Rightarrow> v),
                       status_key = ''no_ci'', status_label = JStr ''Sin CI'',
                       status_icon = warning_icon, run_info = None\<rparr>]))"
    by blast
qed

lemma demo_runs_beta:
  "requests_get demo_env (runs_request demo_env (JStr ''beta'')) = Inr server_error"
  "\<not> rate_limited server_error"
  "status_code server_error \<noteq> 200"
  by code_simp+

lemma limited_runs_alpha:
  "requests_get limited_env (runs_request limited_env (JStr ''alpha'')) = Inr rate_limit_response"
  "rate_limited rate_limit_response"
  "status_code rate_limit_response \<noteq> 200"
  "get_latest_run limited_env (JStr ''alpha'') = Inl (SystemExit 1)"
  by code_simp+

theorem failed_fetch_is_no_ci_witness:
  "requests_get demo_env (runs_request demo_env (JStr ''beta'')) = Inr server_error
   \<and> status_code server_error = 500
   \<and> get_latest_run demo_env (JStr ''beta'') = Inr JNull
   \<and> build_loop demo_env [repo_beta, repo_gamma] [] =
       build_loop demo_env [repo_gamma]
         [\<lparr>name = JStr ''beta'', url = JStr ''https://github.com/algojj/beta'',
           private_flag = JBool False, status_key = ''no_ci'', status_label = JStr ''Sin CI'',
           status_icon = warning_icon, run_info = None\<rparr>]"
  using failed_fetch_is_no_ci
    [of demo_env "JStr ''beta''" server_error
        "[(''name'', JStr ''beta''), (''html_url'', JStr ''https://github.com/algojj/beta''),
          (''private'', JBool False)]"
        "JStr ''https://github.com/algojj/beta''" "[repo_gamma]" "[]"]
    demo_runs_beta
  by (simp add: repo_beta_def server_error_def)

text \<open>
  C8 as stated fails on the rate-limit response, which is a non-success response: the
  run fetcher does not return, and the whole report ends with exit status 1.
\<close>

theorem failed_fetch_counterexample:
  "requests_get limited_env (runs_request limited_env (JStr ''alpha'')) = Inr rate_limit_response
   \<and> status_code rate_limit_response \<noteq> 200
   \<and> get_latest_run limited_env (JStr ''alpha'') = Inl (SystemExit 1)
   \<and> get_latest_run limited_env (JStr ''alpha'') \<noteq> Inr JNull
   \<and> build_repo_data limited_env [repo_alpha, repo_beta, repo_gamma] = Inl (SystemExit 1)"
  using limited_runs_alpha build_repo_data_limited
  by simp

section \<open>Properties of the repository lister\<close>













section \<open>Properties of the aggregate counts\<close>

lemma dict_get_set:
  "dict_get (dict_set d k v) k2 dflt = (if k2 = k then v else dict_get d k2 dflt)"
  by (induction d) (auto simp add: dict_get_def)

lemma sum_values_set:
  "sum_values (dict_set d k v) = sum_values d - dict_get d k 0 + v"
  by (induction d) (auto simp add: sum_values_def dict_get_def)

lemma count_loop_sum:
  "sum_values (count_loop data counts) = sum_values counts + int (length data)"
  by (induction data arbitrary: counts) (simp_all add: Let_def sum_values_set)

lemma count_loop_get:
  "dict_get (count_loop data counts) k 0 =
     dict_get counts k 0 + int (length (filter (\<lambda>r. status_key r = k) data))"
  by (induction data arbitrary: counts) (simp_all add: Let_def dict_get_set)

lemma count_statuses_get:
  "dict_get (count_statuses data) k 0 = int (length (filter (\<lambda>r. status_key r = k) data))"
  by (simp only: count_statuses_def count_loop_get) (simp add: dict_get_def)

lemma residual_count:
  "\<forall>r \<in> set data. status_key r \<in> status_keys \<Longrightarrow>
   int (length data)
     - int (length (filter (\<lambda>r. status_key r = ''failure'') data))
     - int (length (filter (\<lambda>r. status_key r = ''success'') data))
     - int (length (filter (\<lambda>r. status_key r = ''running'') data))
     - int (length (filter (\<lambda>r. status_key r = ''no_ci'') data))
   = int (length (filter (\<lambda>r. status_key r = ''cancelled'' \<or> status_key r = ''unknown'') data))"
  by (induction data) (auto simp add: status_keys_def)

lemma other_entry_empty: "other_entry n = [] \<longleftrightarrow> \<not> 0 < n"
  by (simp add: other_entry_def)

text \<open>
  C6. The counts of \<open>count_statuses\<close> add up to the number of records. For a report whose
  status keys are among the six, the renderer's residual \<open>other\<close> is the number of
  records that are \<open>cancelled\<close> or \<open>unknown\<close>, and the summary strip has an \<open>other\<close>
  entry exactly when there is such a record.
\<close>

theorem counts_and_other_bucket:
  "sum_values (count_statuses data) = int (length data)
   \<and> ((\<forall>r \<in> set data. status_key r \<in> status_keys) \<longrightarrow>
        other_bucket data (count_statuses data) =
          int (length (filter (\<lambda>r. status_key r = ''cancelled'' \<or> status_key r = ''unknown'')
                 data))
        \<and> (other_entry (other_bucket data (count_statuses data)) = [] \<longleftrightarrow>
             other_bucket data (count_statuses data) = 0))"
proof (intro conjI impI)
  show "sum_values (count_statuses data) = int (length data)"
    by (simp only: count_statuses_def count_loop_sum) (simp add: sum_values_def)
next
  assume keys: "\<forall>r \<in> set data. status_key r \<in> status_keys"
  then show other: "other_bucket data (count_statuses data) =
          int (length (filter (\<lambda>r. status_key r = ''cancelled'' \<or> status_key r = ''unknown'')
                 data))"
    unfolding other_bucket_def count_statuses_get by (rule residual_count)
  then have "0 \<le> other_bucket data (count_statuses data)"
    by simp
  then show "other_entry (other_bucket data (count_statuses data)) = [] \<longleftrightarrow>
             other_bucket data (count_statuses data) = 0"
    by (auto simp add: other_entry_empty)
qed

lemma mixed_report_counts:
  "count_statuses mixed_report =
     [(''failure'', 1), (''no_ci'', 2), (''cancelled'', 1), (''unknown'', 1)]"
  "set (map status_key mixed_report) \<subseteq> status_keys"
  by code_simp+

theorem counts_and_other_bucket_witness:
  "set (map status_key mixed_report) \<subseteq> status_keys
   \<and> sum_values [(''failure'', 1), (''no_ci'', 2), (''cancelled'', 1), (''unknown'', 1)] = 5
   \<and> other_bucket mixed_report (count_statuses mixed_report) = 2
   \<and> other_entry (other_bucket mixed_report (count_statuses mixed_report)) \<noteq> []"
proof -
  have keys: "\<forall>r \<in> set mixed_report. status_key r \<in> status_keys"
    using mixed_report_counts(2) by auto
  have len: "length mixed_report = 5"
    by (simp add: mixed_report_def demo_report_def)
  have two: "length (filter (\<lambda>r. status_key r = ''cancelled'' \<or> status_key r = ''unknown'')
                 mixed_report) = 2"
    by (simp add: mixed_report_def demo_report_def)
  from counts_and_other_bucket [of mixed_report] keys len two mixed_report_counts
  show ?thesis
    by (simp add: other_entry_empty)
qed

section \<open>Properties of the copy control\<close>










end
